theory Spec2Isabelle
  imports Complex_Main "HOL-Library.Log_Nat"
begin

section \<open>Values handled by the API layer (src/main.py)\<close>

text \<open>
  The analysis endpoint receives an insights value from the analyzer and passes it through
  \<^verbatim>\<open>convert_to_native_types\<close> (main.py, lines 128-143). The function dispatches on the
  run-time type of its argument, so the model is a tagged value tree with one constructor
  for each type the function can tell apart.

  A floating-point value is a finite number, a NaN or an infinity. The finite payload is
  the number itself.
\<close>

datatype fval = Finite rat | NaN | PosInf | NegInf

text \<open>
  The subtypes of \<^verbatim>\<open>np.floating\<close>. A \<^verbatim>\<open>float16\<close>, \<^verbatim>\<open>float32\<close> or \<^verbatim>\<open>float64\<close>
  value is a binary64 number already; an \<^verbatim>\<open>np.longdouble\<close> has a wider format (on x86 a
  64-bit significand and a 15-bit exponent).
\<close>

datatype np_float_kind = Float16 | Float32 | Float64 | LongDouble

text \<open>
  \<^verbatim>\<open>float(obj)\<close>, line 138. For a long double it is the conversion to binary64: to the
  nearest double, ties to the even significand, and to an infinity from
  \<open>2 ^ 1024 - 2 ^ 970\<close> on, half a unit in the last place above the largest double.
  \<open>floor_log2 a\<close> is the binary exponent of a positive \<open>a\<close>; the smallest exponent
  of a double is \<open>-1022\<close>, its significand has 52 fraction bits.
\<close>

definition pow2 :: "int \<Rightarrow> rat" where
  "pow2 e = (if 0 \<le> e then 2 ^ nat e else 1 / 2 ^ nat (- e))"

definition floor_log2 :: "rat \<Rightarrow> int" where
  "floor_log2 a =
     (let (p, q) = quotient_of a; d = bitlen p - bitlen q
      in if pow2 d \<le> a then d else d - 1)"

definition round_half_even :: "rat \<Rightarrow> int" where
  "round_half_even q =
     (let n = \<lfloor>q\<rfloor>; d = q - of_int n
      in if d < 1 / 2 then n else if 1 / 2 < d then n + 1 else if even n then n else n + 1)"

definition nearest_double :: "rat \<Rightarrow> rat" where
  "nearest_double r =
     (if r = 0 then 0
      else let a = \<bar>r\<bar>; e = max (floor_log2 a) (- 1022); u = pow2 (e - 52)
           in sgn r * of_int (round_half_even (a / u)) * u)"

fun to_double :: "fval \<Rightarrow> fval" where
  "to_double (Finite r) =
     (if 2 ^ 1024 - 2 ^ 970 \<le> \<bar>r\<bar> then (if 0 < r then PosInf else NegInf)
      else Finite (nearest_double r))"
| "to_double f = f"

fun py_float :: "np_float_kind \<Rightarrow> fval \<Rightarrow> fval" where
  "py_float LongDouble f = to_double f"
| "py_float k f = f"

text \<open>
  \<^item> \<open>PyNone\<close>, \<open>PyStr\<close>, \<open>PyBool\<close>, \<open>PyInt\<close>, \<open>PyFloat\<close>: the native Python scalars;
  \<^item> \<open>NpFloating\<close>, \<open>NpInteger\<close>, \<open>NpBool\<close>: instances of \<^verbatim>\<open>np.floating\<close>,
    \<^verbatim>\<open>np.integer\<close> and \<^verbatim>\<open>np.bool_\<close>;
  \<^item> \<open>NpOther\<close>: any other numpy scalar (\<^verbatim>\<open>np.complex128\<close>, \<^verbatim>\<open>np.str_\<close>,
    \<^verbatim>\<open>np.datetime64\<close>), named by its printed form;
  \<^item> \<open>PyList\<close>, \<open>PyDict\<close>: the two containers the function walks; a dict is the list of its
    items in insertion order, with the indicator or column name as key;
  \<^item> \<open>PyTuple\<close>: a container that is neither a dict nor a list (a tuple).
\<close>

datatype pyval =
    PyNone
  | PyStr string
  | PyBool bool
  | PyInt int
  | PyFloat fval
  | NpFloating np_float_kind fval
  | NpInteger int
  | NpBool bool
  | NpOther string
  | PyList "pyval list"
  | PyDict "(string \<times> pyval) list"
  | PyTuple "pyval list"

fun np_isnan :: "fval \<Rightarrow> bool" where
  "np_isnan NaN = True"
| "np_isnan _ = False"

fun np_isinf :: "fval \<Rightarrow> bool" where
  "np_isinf PosInf = True"
| "np_isinf NegInf = True"
| "np_isinf _ = False"

text \<open>
  The branches in the order of the source. A Python \<^verbatim>\<open>bool\<close> is an instance of
  \<^verbatim>\<open>int\<close>, so the test \<^verbatim>\<open>isinstance(obj, (np.integer, int))\<close> accepts it and
  \<^verbatim>\<open>int(obj)\<close> returns 1 or 0; \<^verbatim>\<open>np.bool_\<close> is neither an \<^verbatim>\<open>np.integer\<close> nor an
  \<^verbatim>\<open>int\<close> and reaches its own branch. Everything else is returned as it is.
\<close>

fun convert_to_native_types :: "pyval \<Rightarrow> pyval" where
  "convert_to_native_types (PyDict kvs) =
     PyDict (map (\<lambda>(k, v). (k, convert_to_native_types v)) kvs)"
| "convert_to_native_types (PyList xs) = PyList (map convert_to_native_types xs)"
| "convert_to_native_types (PyFloat f) =
     (if np_isnan f \<or> np_isinf f then PyNone else PyFloat f)"
| "convert_to_native_types (NpFloating k f) =
     (if np_isnan f \<or> np_isinf f then PyNone else PyFloat (py_float k f))"
| "convert_to_native_types (PyInt i) = PyInt i"
| "convert_to_native_types (NpInteger i) = PyInt i"
| "convert_to_native_types (PyBool b) = PyInt (if b then 1 else 0)"
| "convert_to_native_types (NpBool b) = PyBool b"
| "convert_to_native_types obj = obj"

subsection \<open>Observations on value trees\<close>

text \<open>The leaves of a tree, left to right, through every container.\<close>

fun leaves :: "pyval \<Rightarrow> pyval list" where
  "leaves (PyList xs) = concat (map leaves xs)"
| "leaves (PyDict kvs) = concat (map (\<lambda>(k, v). leaves v) kvs)"
| "leaves (PyTuple xs) = concat (map leaves xs)"
| "leaves x = [x]"

text \<open>A leaf is a value that is not a container.\<close>

fun is_leaf :: "pyval \<Rightarrow> bool" where
  "is_leaf (PyList xs) = False"
| "is_leaf (PyDict kvs) = False"
| "is_leaf (PyTuple xs) = False"
| "is_leaf x = True"

text \<open>A tree built of dicts, lists and leaves: no other container occurs in it.\<close>

fun walked :: "pyval \<Rightarrow> bool" where
  "walked (PyList xs) = list_all walked xs"
| "walked (PyDict kvs) = list_all (\<lambda>(k, v). walked v) kvs"
| "walked (PyTuple xs) = False"
| "walked x = True"

text \<open>The floating-point value of a \<^verbatim>\<open>float\<close> or \<^verbatim>\<open>np.floating\<close> leaf.\<close>

fun float_value :: "pyval \<Rightarrow> fval option" where
  "float_value (PyFloat f) = Some f"
| "float_value (NpFloating k f) = Some f"
| "float_value x = None"

text \<open>
  What the sanitization pass owes a leaf \<open>x\<close> in its result \<open>y\<close>: a NaN or an infinity has
  become \<open>None\<close>, a finite floating-point number still has its value.
\<close>

definition leaf_sanitized :: "pyval \<Rightarrow> pyval \<Rightarrow> bool" where
  "leaf_sanitized x y =
     (case float_value x of
        None \<Rightarrow> True
      | Some f \<Rightarrow> if np_isnan f \<or> np_isinf f then y = PyNone else float_value y = Some f)"

text \<open>A leaf that is an \<^verbatim>\<open>np.longdouble\<close>.\<close>

fun is_longdouble :: "pyval \<Rightarrow> bool" where
  "is_longdouble (NpFloating LongDouble f) = True"
| "is_longdouble x = False"

text \<open>
  The same, with the value of a finite number owed to a Python float and to a numpy
  floating of at most 64 bits only; nothing is said of the value of a finite long double.
\<close>

definition leaf_sanitized_64 :: "pyval \<Rightarrow> pyval \<Rightarrow> bool" where
  "leaf_sanitized_64 x y =
     (case float_value x of
        None \<Rightarrow> True
      | Some f \<Rightarrow>
          if np_isnan f \<or> np_isinf f then y = PyNone
          else if is_longdouble x then True
          else float_value y = Some f)"

text \<open>The run-time type of a value, as \<^verbatim>\<open>isinstance\<close> and a JSON encoder see it.\<close>

datatype pytype =
    TNone | TStr | TBool | TInt | TFloat
  | TNpFloating | TNpInteger | TNpBool | TNpOther
  | TList | TDict | TTuple

fun type_of :: "pyval \<Rightarrow> pytype" where
  "type_of PyNone = TNone"
| "type_of (PyStr s) = TStr"
| "type_of (PyBool b) = TBool"
| "type_of (PyInt i) = TInt"
| "type_of (PyFloat f) = TFloat"
| "type_of (NpFloating k f) = TNpFloating"
| "type_of (NpInteger i) = TNpInteger"
| "type_of (NpBool b) = TNpBool"
| "type_of (NpOther s) = TNpOther"
| "type_of (PyList xs) = TList"
| "type_of (PyDict kvs) = TDict"
| "type_of (PyTuple xs) = TTuple"

text \<open>
  Type normalization as the specification words it, for a leaf \<open>x\<close> and its image \<open>y\<close>:
  a float or numpy floating has become a native float, an int or numpy integer a native
  int, a numpy bool a native bool, and a boolean is still a boolean.
\<close>

definition normalized_as_stated :: "pyval \<Rightarrow> pyval \<Rightarrow> bool" where
  "normalized_as_stated x y =
     ((if type_of x = TFloat \<or> type_of x = TNpFloating then type_of y = TFloat else True) \<and>
      (if type_of x = TInt \<or> type_of x = TNpInteger then type_of y = TInt else True) \<and>
      (if type_of x = TNpBool then type_of y = TBool else True) \<and>
      (if type_of x = TBool \<or> type_of x = TNpBool then type_of y = TBool else True))"

text \<open>
  The same, for the leaves whose treatment the source fixes by a branch of its own: the
  float clause holds for finite numbers (a NaN or an infinity has become \<open>None\<close>), and
  nothing is said about a native \<^verbatim>\<open>bool\<close>.
\<close>

definition normalized :: "pyval \<Rightarrow> pyval \<Rightarrow> bool" where
  "normalized x y =
     ((case float_value x of
         None \<Rightarrow> True
       | Some f \<Rightarrow> type_of y = (if np_isnan f \<or> np_isinf f then TNone else TFloat)) \<and>
      (if type_of x = TInt \<or> type_of x = TNpInteger then type_of y = TInt else True) \<and>
      (if type_of x = TNpBool then type_of y = TBool else True))"

text \<open>
  A value that is safe to serialize: no NaN, no infinity and no numpy-typed value anywhere
  in it, whatever the containers.
\<close>

fun native_clean :: "pyval \<Rightarrow> bool" where
  "native_clean (PyFloat f) = (\<not> np_isnan f \<and> \<not> np_isinf f)"
| "native_clean (NpFloating k f) = False"
| "native_clean (NpInteger i) = False"
| "native_clean (NpBool b) = False"
| "native_clean (NpOther s) = False"
| "native_clean (PyList xs) = list_all native_clean xs"
| "native_clean (PyDict kvs) = list_all (\<lambda>(k, v). native_clean v) kvs"
| "native_clean (PyTuple xs) = list_all native_clean xs"
| "native_clean x = True"

text \<open>
  A tree built of dicts, lists and the leaf types that the pass has a branch for (or that
  are native already), the numpy floating ones of at most 64 bits: no tuple, no other
  numpy scalar and no long double occurs in it.
\<close>

fun handled :: "pyval \<Rightarrow> bool" where
  "handled (PyList xs) = list_all handled xs"
| "handled (PyDict kvs) = list_all (\<lambda>(k, v). handled v) kvs"
| "handled (PyTuple xs) = False"
| "handled (NpOther s) = False"
| "handled (NpFloating LongDouble f) = False"
| "handled x = True"

text \<open>The structure of a tree: its containers, the keys of its dicts, one mark per leaf.\<close>

datatype shape =
    Scalar
  | ListShape "shape list"
  | DictShape "(string \<times> shape) list"
  | TupleShape "shape list"

fun shape_of :: "pyval \<Rightarrow> shape" where
  "shape_of (PyList xs) = ListShape (map shape_of xs)"
| "shape_of (PyDict kvs) = DictShape (map (\<lambda>(k, v). (k, shape_of v)) kvs)"
| "shape_of (PyTuple xs) = TupleShape (map shape_of xs)"
| "shape_of x = Scalar"

text \<open>
  The numeric leaves are those the pass has a branch for: floats, ints (a Python
  \<^verbatim>\<open>bool\<close> is one) and numpy bools.
\<close>

fun is_numeric :: "pyval \<Rightarrow> bool" where
  "is_numeric (PyBool b) = True"
| "is_numeric (PyInt i) = True"
| "is_numeric (PyFloat f) = True"
| "is_numeric (NpFloating k f) = True"
| "is_numeric (NpInteger i) = True"
| "is_numeric (NpBool b) = True"
| "is_numeric x = False"

definition leaf_kept :: "pyval \<Rightarrow> pyval \<Rightarrow> bool" where
  "leaf_kept x y = (if is_numeric x then True else y = x)"

text \<open>A tree in which no \<^verbatim>\<open>np.bool_\<close> occurs where the pass reaches it.\<close>

fun no_np_bool :: "pyval \<Rightarrow> bool" where
  "no_np_bool (NpBool b) = False"
| "no_np_bool (PyList xs) = list_all no_np_bool xs"
| "no_np_bool (PyDict kvs) = list_all (\<lambda>(k, v). no_np_bool v) kvs"
| "no_np_bool x = True"

text \<open>A tree in which no \<^verbatim>\<open>np.longdouble\<close> occurs where the pass reaches it.\<close>

fun no_longdouble :: "pyval \<Rightarrow> bool" where
  "no_longdouble (NpFloating LongDouble f) = False"
| "no_longdouble (PyList xs) = list_all no_longdouble xs"
| "no_longdouble (PyDict kvs) = list_all (\<lambda>(k, v). no_longdouble v) kvs"
| "no_longdouble x = True"

section \<open>The stock endpoints (src/main.py, lines 74-165)\<close>

text \<open>
  \<^verbatim>\<open>StockRequest\<close> (lines 31-34): \<^verbatim>\<open>period\<close> defaults to \<^verbatim>\<open>"6mo"\<close> and \<^verbatim>\<open>interval\<close>
  to \<^verbatim>\<open>"1d"\<close>.
\<close>

record stock_request =
  symbol :: string
  period :: string
  interval :: string

definition StockRequest :: "string \<Rightarrow> string option \<Rightarrow> string option \<Rightarrow> stock_request" where
  "StockRequest s p i =
     \<lparr>symbol = s,
      period = (case p of None \<Rightarrow> ''6mo'' | Some x \<Rightarrow> x),
      interval = (case i of None \<Rightarrow> ''1d'' | Some x \<Rightarrow> x)\<rparr>"

text \<open>
  What a \<^verbatim>\<open>try\<close> block can raise: FastAPI's \<^verbatim>\<open>HTTPException\<close> (status code and
  detail), itself a subclass of \<^verbatim>\<open>Exception\<close>, or any other \<^verbatim>\<open>Exception\<close> with its
  message.
\<close>

datatype exn = HTTPException nat string | PyException string

text \<open>The calls an endpoint makes to its collaborators, with their arguments.\<close>

datatype call =
    Collector_get_stock_data string string "string option"
  | Analyzer_generate_insights string string

text \<open>
  The collaborators are imported from modules that are not part of \<^verbatim>\<open>main.py\<close>; the
  endpoints take them as parameters. Each may return or raise. The collector returns a
  data frame or \<^verbatim>\<open>None\<close>; its \<^verbatim>\<open>interval\<close> keyword is optional.
  \<open>frame_to_records\<close> stands for the pandas calls of lines 88-92 and 121-125 (copy,
  format the index, mask the missing cells, list the rows as dicts), \<open>exn_str\<close> for
  \<^verbatim>\<open>str(e)\<close>.
\<close>

record 'df collaborators =
  collector_get_stock_data :: "string \<Rightarrow> string \<Rightarrow> string option \<Rightarrow> exn + 'df option"
  analyzer_generate_insights :: "string \<Rightarrow> string \<Rightarrow> exn + pyval"
  frame_to_records :: "'df \<Rightarrow> exn + pyval list"
  exn_str :: "exn \<Rightarrow> string"

text \<open>
  An endpoint either returns a value or raises an \<^verbatim>\<open>HTTPException\<close>, which FastAPI
  sends with its status code and detail. A returned value is rendered as JSON by FastAPI
  after the endpoint has returned: with status 200 when the rendering succeeds, as a
  server error when the value still holds something the encoder refuses (a NaN, an
  infinity). The rendering is outside \<^verbatim>\<open>main.py\<close> and is not modelled, so the status
  code is that of a raised \<^verbatim>\<open>HTTPException\<close> only.
\<close>

datatype response = Returned pyval | HTTPError nat string

fun status_code :: "response \<Rightarrow> nat" where
  "status_code (HTTPError c d) = c"

text \<open>
  \<^verbatim>\<open>get_stock_data\<close>, lines 77-98: the body of the \<^verbatim>\<open>try\<close> block, with the calls made
  so far. \<open>now\<close> is \<^verbatim>\<open>datetime.now().isoformat()\<close>.
\<close>

definition stock_data_try ::
  "'df collaborators \<Rightarrow> string \<Rightarrow> stock_request \<Rightarrow> call list \<times> (exn + pyval)" where
  "stock_data_try env now request =
     (let c1 = Collector_get_stock_data (symbol request) (period request)
                 (Some (interval request)) in
      case collector_get_stock_data env (symbol request) (period request)
             (Some (interval request)) of
        Inl e \<Rightarrow> ([c1], Inl e)
      | Inr None \<Rightarrow>
          ([c1], Inl (HTTPException 404 (''No data found for symbol '' @ symbol request)))
      | Inr (Some data) \<Rightarrow>
          (case frame_to_records env data of
             Inl e \<Rightarrow> ([c1], Inl e)
           | Inr data_dict \<Rightarrow>
               ([c1], Inr (PyDict
                  [(''symbol'', PyStr (symbol request)),
                   (''timestamp'', PyStr now),
                   (''data'', PyList data_dict)]))))"

text \<open>Lines 100-103: \<^verbatim>\<open>except Exception as e\<close> catches whatever the block raised.\<close>

definition get_stock_data ::
  "'df collaborators \<Rightarrow> string \<Rightarrow> stock_request \<Rightarrow> call list \<times> response" where
  "get_stock_data env now request =
     (case stock_data_try env now request of
        (calls, Inl e) \<Rightarrow>
          (calls, HTTPError 500 (''Error fetching stock data: '' @ exn_str env e))
      | (calls, Inr v) \<Rightarrow> (calls, Returned v))"

text \<open>\<^verbatim>\<open>get_stock_analysis\<close>, lines 109-156: the body of the \<^verbatim>\<open>try\<close> block.\<close>

definition stock_analysis_try ::
  "'df collaborators \<Rightarrow> string \<Rightarrow> stock_request \<Rightarrow> call list \<times> (exn + pyval)" where
  "stock_analysis_try env now request =
     (let c1 = Collector_get_stock_data (symbol request) (period request) None;
          c2 = Analyzer_generate_insights (symbol request) (period request) in
      case collector_get_stock_data env (symbol request) (period request) None of
        Inl e \<Rightarrow> ([c1], Inl e)
      | Inr None \<Rightarrow>
          ([c1], Inl (HTTPException 404 (''No data found for symbol '' @ symbol request)))
      | Inr (Some data) \<Rightarrow>
          (case analyzer_generate_insights env (symbol request) (period request) of
             Inl e \<Rightarrow> ([c1, c2], Inl e)
           | Inr insights \<Rightarrow>
               (case frame_to_records env data of
                  Inl e \<Rightarrow> ([c1, c2], Inl e)
                | Inr data_dict \<Rightarrow>
                    ([c1, c2], Inr (PyDict
                       [(''timestamp'', PyStr now),
                        (''symbol'', PyStr (symbol request)),
                        (''data'', PyList (map convert_to_native_types data_dict)),
                        (''insights'', convert_to_native_types insights)])))))"

text \<open>
  Lines 158-165: again every exception of the block becomes a status 500. (The handler
  also prints the message and the traceback; the printing is left out.)
\<close>

definition get_stock_analysis ::
  "'df collaborators \<Rightarrow> string \<Rightarrow> stock_request \<Rightarrow> call list \<times> response" where
  "get_stock_analysis env now request =
     (case stock_analysis_try env now request of
        (calls, Inl e) \<Rightarrow>
          (calls, HTTPError 500 (''Error generating analysis: '' @ exn_str env e))
      | (calls, Inr response_data) \<Rightarrow> (calls, Returned response_data))"

text \<open>The entry of a returned dict under a key, as \<^verbatim>\<open>response["insights"]\<close> reads it.\<close>

fun response_field :: "string \<Rightarrow> response \<Rightarrow> pyval option" where
  "response_field k (Returned (PyDict kvs)) = map_of kvs k"
| "response_field k r = None"

section \<open>The Insight Assembler, from the specification\<close>

text \<open>
  Modelled from the spec: \<^verbatim>\<open>main.py\<close> imports \<^verbatim>\<open>FinancialAnalyzer\<close> from the module
  \<^verbatim>\<open>data_analysis\<close>, which is not among the sources, and calls its method
  \<^verbatim>\<open>generate_insights(symbol, period)\<close>. The definitions of this section follow
  sections 3, 4.2, 4.3 and 9 of the specification. An indicator result is one of the
  variants \<open>Value\<close>, \<open>InsufficientData\<close> and \<open>Unavailable\<close>.
\<close>

datatype indicator_result = Value pyval | InsufficientData | Unavailable

text \<open>
  Modelled from the spec: an indicator of the (missing) Indicator Library has a name, the
  minimum sample count it needs to produce a defined value, and its computation over the
  samples of a TimeSeries, which may fail unexpectedly (\<^verbatim>\<open>IndicatorFailure\<close>).
\<close>

record 's indicator =
  ind_name :: string
  min_samples :: nat
  compute :: "'s list \<Rightarrow> exn + pyval"

text \<open>
  Modelled from the spec: the missing per-indicator step of the assembler. An indicator
  facing an empty series, or fewer samples than it needs, returns "insufficient data"
  rather than raising; a failure of its computation is caught and becomes "unavailable"
  for that indicator alone.
\<close>

definition run_indicator :: "'s indicator \<Rightarrow> 's list \<Rightarrow> indicator_result" where
  "run_indicator ind ts =
     (if ts = [] \<or> length ts < min_samples ind then InsufficientData
      else case compute ind ts of Inl e \<Rightarrow> Unavailable | Inr v \<Rightarrow> Value v)"

text \<open>
  Modelled from the spec: the missing encoding of an indicator result in the bundle, a
  value or an explicit marker.
\<close>

fun result_value :: "indicator_result \<Rightarrow> pyval" where
  "result_value (Value v) = v"
| "result_value InsufficientData = PyStr ''insufficient data''"
| "result_value Unavailable = PyStr ''unavailable''"

text \<open>
  Modelled from the spec: the missing assembler. The Insight Bundle maps each indicator
  name to its result and carries the symbol and the span it was computed over.
\<close>

definition assemble :: "'s indicator list \<Rightarrow> string \<Rightarrow> string \<Rightarrow> 's list \<Rightarrow> pyval" where
  "assemble inds smb per ts =
     PyDict
       [(''symbol'', PyStr smb),
        (''period'', PyStr per),
        (''indicators'',
           PyDict (map (\<lambda>ind. (ind_name ind, result_value (run_indicator ind ts))) inds))]"

text \<open>
  Modelled from the spec: the missing method \<^verbatim>\<open>generate_insights\<close>. It obtains the
  TimeSeries of the symbol and period from the Data Collector (a TimeSeries, or the
  "not found" signal) and assembles the bundle; without a TimeSeries there is no bundle.
\<close>

definition generate_insights ::
  "(string \<Rightarrow> string \<Rightarrow> string option \<Rightarrow> exn + 's list option) \<Rightarrow> 's indicator list \<Rightarrow>
   string \<Rightarrow> string \<Rightarrow> exn + pyval" where
  "generate_insights collect inds smb per =
     (case collect smb per None of
        Inl e \<Rightarrow> Inl e
      | Inr None \<Rightarrow> Inl (PyException (''No data found for symbol '' @ smb))
      | Inr (Some ts) \<Rightarrow> Inr (assemble inds smb per ts))"

text \<open>
  The collaborators of \<^verbatim>\<open>main.py\<close> with this analyzer; the data frame of the collector is
  the TimeSeries.
\<close>

definition with_analyzer ::
  "'s list collaborators \<Rightarrow> 's indicator list \<Rightarrow> 's list collaborators" where
  "with_analyzer env inds =
     env\<lparr>analyzer_generate_insights :=
           generate_insights (collector_get_stock_data env) inds\<rparr>"

section \<open>Data frames\<close>

text \<open>
  What \<^verbatim>\<open>main.py\<close> does to the frame of the collector (lines 121-125) depends on the index
  of the frame. A frame is a list of rows, each with its sample; its index is a
  \<^verbatim>\<open>DatetimeIndex\<close>, and each row has its time stamp, or an index of another kind, as the
  \<^verbatim>\<open>RangeIndex\<close> of \<^verbatim>\<open>pd.DataFrame()\<close>. Either kind of frame may be empty.
\<close>

datatype 's frame = DatetimeFrame "(string \<times> 's) list" | PlainFrame "'s list"

fun samples :: "'s frame \<Rightarrow> 's list" where
  "samples (DatetimeFrame rows) = map snd rows"
| "samples (PlainFrame rows) = rows"

text \<open>
  Lines 121-125. \<^verbatim>\<open>data_dict.index.strftime(...)\<close> exists for a \<^verbatim>\<open>DatetimeIndex\<close> only; on
  any other index the attribute lookup raises \<^verbatim>\<open>AttributeError\<close>, whose message names
  the class of the index and the attribute in single quotes. The time stamp of a
  row is kept as the string that \<^verbatim>\<open>strftime\<close> gives, and \<open>record_of ts s\<close> is the dict
  that \<^verbatim>\<open>where\<close>, \<^verbatim>\<open>reset_index\<close> and \<^verbatim>\<open>to_dict(orient="records")\<close> then build for the
  row with that stamp and the sample \<open>s\<close>.
\<close>

definition attribute_error :: "string \<Rightarrow> string \<Rightarrow> exn" where
  "attribute_error cls attr =
     PyException ([CHR 0x27] @ cls @ [CHR 0x27] @ '' object has no attribute '' @
                  [CHR 0x27] @ attr @ [CHR 0x27])"

definition pandas_records :: "(string \<Rightarrow> 's \<Rightarrow> pyval) \<Rightarrow> 's frame \<Rightarrow> exn + pyval list" where
  "pandas_records record_of data =
     (case data of
        PlainFrame rows \<Rightarrow> Inl (attribute_error ''RangeIndex'' ''strftime'')
      | DatetimeFrame rows \<Rightarrow> Inr (map (\<lambda>(ts, s). record_of ts s) rows))"

text \<open>The TimeSeries that the collector's answer holds.\<close>

fun series_of :: "exn + 's frame option \<Rightarrow> exn + 's list option" where
  "series_of (Inl e) = Inl e"
| "series_of (Inr None) = Inr None"
| "series_of (Inr (Some data)) = Inr (Some (samples data))"

text \<open>
  The collaborators of \<^verbatim>\<open>main.py\<close> over frames: the analyzer of the specification on the
  samples of the collector's frame, and lines 121-125 as above.
\<close>

definition pandas_env ::
  "'s frame collaborators \<Rightarrow> (string \<Rightarrow> 's \<Rightarrow> pyval) \<Rightarrow> 's indicator list \<Rightarrow>
   's frame collaborators" where
  "pandas_env env record_of inds =
     env\<lparr>analyzer_generate_insights :=
           generate_insights (\<lambda>s p i. series_of (collector_get_stock_data env s p i)) inds,
         frame_to_records := pandas_records record_of\<rparr>"

section \<open>A concrete setting\<close>

text \<open>
  \<^verbatim>\<open>str(e)\<close>: of an \<^verbatim>\<open>HTTPException\<close> the status code, a colon and the detail, of any
  other exception its message.
\<close>

fun string_of_nat :: "nat \<Rightarrow> string" where
  "string_of_nat n =
     (if n < 10 then [''0123456789'' ! n]
      else string_of_nat (n div 10) @ [''0123456789'' ! (n mod 10)])"

fun py_str :: "exn \<Rightarrow> string" where
  "py_str (HTTPException c d) = string_of_nat c @ '': '' @ d"
| "py_str (PyException m) = m"

text \<open>
  A collector that knows one symbol, with three closing prices, and reports every other
  symbol as not found; rows become one-column records.
\<close>

definition example_env :: "int list collaborators" where
  "example_env =
     \<lparr>collector_get_stock_data =
        (\<lambda>s p i. if s = ''AAPL'' then Inr (Some [100, 101, 102]) else Inr None),
      analyzer_generate_insights = (\<lambda>s p. Inr (PyDict [(''rsi'', NpFloating Float64 NaN)])),
      frame_to_records = (\<lambda>df. Inr (map (\<lambda>c. PyDict [(''Close'', NpInteger c)]) df)),
      exn_str = py_str\<rparr>"

text \<open>
  A collector of frames: one symbol with two daily rows, one with an empty frame that has
  a \<^verbatim>\<open>DatetimeIndex\<close>, one with the empty frame \<^verbatim>\<open>pd.DataFrame()\<close>.
\<close>

definition close_record :: "string \<Rightarrow> int \<Rightarrow> pyval" where
  "close_record ts c = PyDict [(''Date'', PyStr ts), (''Close'', NpInteger c)]"

definition example_frames :: "int frame collaborators" where
  "example_frames =
     \<lparr>collector_get_stock_data =
        (\<lambda>s p i.
           if s = ''AAPL'' then
             Inr (Some (DatetimeFrame
               [(''2024-04-29 00:00:00'', 100), (''2024-04-30 00:00:00'', 102)]))
           else if s = ''EMPTY'' then Inr (Some (DatetimeFrame []))
           else if s = ''BLANK'' then Inr (Some (PlainFrame []))
           else Inr None),
      analyzer_generate_insights = (\<lambda>s p. Inr (PyDict [])),
      frame_to_records = pandas_records close_record,
      exn_str = py_str\<rparr>"

definition last_close :: "int indicator" where
  "last_close =
     \<lparr>ind_name = ''last_close'', min_samples = 1, compute = (\<lambda>ts. Inr (NpInteger (last ts)))\<rparr>"

definition sample_count :: "int indicator" where
  "sample_count =
     \<lparr>ind_name = ''samples'', min_samples = 1,
      compute = (\<lambda>ts. Inr (PyInt (int (length ts))))\<rparr>"

definition faulty :: "int indicator" where
  "faulty =
     \<lparr>ind_name = ''rsi'', min_samples = 2,
      compute = (\<lambda>ts. Inl (PyException ''float division by zero''))\<rparr>"

section \<open>Properties of the sanitization pass\<close>

lemma list_all2_concat_map:
  "(\<And>x. x \<in> set xs \<Longrightarrow> list_all2 R (f x) (g x)) \<Longrightarrow>
   list_all2 R (concat (map f xs)) (concat (map g xs))"
  by (induction xs) (auto intro: list_all2_appendI)

lemma leaves_convert_walked:
  assumes leaf: "\<And>x. is_leaf x \<Longrightarrow> R x (convert_to_native_types x)"
  shows "walked t \<Longrightarrow>
         list_all2 R (leaves t) (leaves (convert_to_native_types t))"
proof (induction t rule: convert_to_native_types.induct)
  case (1 kvs)
  have "list_all2 R (concat (map (\<lambda>(k, v). leaves v) kvs))
          (concat (map (\<lambda>(k, v). leaves (convert_to_native_types v)) kvs))"
  proof (rule list_all2_concat_map)
    fix x assume x: "x \<in> set kvs"
    obtain k v where kv: "x = (k, v)" by (cases x)
    from 1(2) x kv have "walked v" by (auto simp: list_all_iff)
    with 1(1) x kv show "list_all2 R (case x of (k, v) \<Rightarrow> leaves v)
        (case x of (k, v) \<Rightarrow> leaves (convert_to_native_types v))"
      by auto
  qed
  then show ?case
    by (simp add: comp_def case_prod_unfold)
next
  case (2 xs)
  have "list_all2 R (concat (map leaves xs))
          (concat (map (\<lambda>x. leaves (convert_to_native_types x)) xs))"
    by (rule list_all2_concat_map) (use 2 in \<open>auto simp: list_all_iff\<close>)
  then show ?case by (simp add: comp_def)
next
  case (3 f)
  from leaf [of "PyFloat f"] show ?case
    by (cases "np_isnan f \<or> np_isinf f") simp_all
next
  case (4 k f)
  from leaf [of "NpFloating k f"] show ?case
    by (cases "np_isnan f \<or> np_isinf f") simp_all
next
  case (5 i)
  from leaf [of "PyInt i"] show ?case by simp
next
  case (6 i)
  from leaf [of "NpInteger i"] show ?case by simp
next
  case (7 b)
  from leaf [of "PyBool b"] show ?case by simp
next
  case (8 b)
  from leaf [of "NpBool b"] show ?case by simp
qed (use leaf [of PyNone] leaf [of "PyStr s" for s] leaf [of "NpOther s" for s] in simp_all)

lemma py_float_exact: "k \<noteq> LongDouble \<Longrightarrow> py_float k f = f"
  by (cases k) simp_all

text \<open>
  C1, as stated, fails on \<^verbatim>\<open>{"volatility": np.longdouble(2) ** 1024}\<close>: the leaf is
  finite, and the pass returns the native float infinity for it.
\<close>

theorem longdouble_leaf_becomes_infinite:
  "convert_to_native_types (PyDict [(''volatility'', NpFloating LongDouble (Finite (2 ^ 1024)))]) =
     PyDict [(''volatility'', PyFloat PosInf)] \<and>
   \<not> list_all2 leaf_sanitized
        (leaves (PyDict [(''volatility'', NpFloating LongDouble (Finite (2 ^ 1024)))]))
        (leaves (convert_to_native_types
           (PyDict [(''volatility'', NpFloating LongDouble (Finite (2 ^ 1024)))])))"
  by (simp add: leaf_sanitized_def)

text \<open>
  C1, amended. In a tree built of dicts, lists and leaves, the pass replaces every
  floating-point leaf (Python float or numpy floating) that is NaN or infinite by None and
  leaves every finite Python float and every finite numpy floating of at most 64 bits
  with its value: leaf by leaf, in order, the result is related to the input by
  \<open>leaf_sanitized_64\<close>.
\<close>

theorem convert_sanitizes_float_leaves:
  "walked t \<Longrightarrow>
   list_all2 leaf_sanitized_64 (leaves t) (leaves (convert_to_native_types t))"
proof (rule leaves_convert_walked)
  fix x :: pyval
  assume "is_leaf x"
  show "leaf_sanitized_64 x (convert_to_native_types x)"
  proof (cases x)
    case (NpFloating k f)
    then show ?thesis
      by (cases "k = LongDouble") (auto simp: leaf_sanitized_64_def py_float_exact)
  qed (auto simp: leaf_sanitized_64_def)
qed

theorem convert_sanitizes_float_leaves_witness:
  "walked (PyDict [(''rsi'', NpFloating Float64 NaN),
                   (''sma'', PyList [PyFloat (Finite 127), NpFloating Float32 PosInf,
                                     NpFloating Float32 (Finite (1 / 2)),
                                     NpFloating LongDouble NegInf])]) \<and>
   list_all2 leaf_sanitized_64
     [NpFloating Float64 NaN, PyFloat (Finite 127), NpFloating Float32 PosInf,
      NpFloating Float32 (Finite (1 / 2)), NpFloating LongDouble NegInf]
     [PyNone, PyFloat (Finite 127), PyNone, PyFloat (Finite (1 / 2)), PyNone]"
  using convert_sanitizes_float_leaves
    [of "PyDict [(''rsi'', NpFloating Float64 NaN),
                 (''sma'', PyList [PyFloat (Finite 127), NpFloating Float32 PosInf,
                                   NpFloating Float32 (Finite (1 / 2)),
                                   NpFloating LongDouble NegInf])]"]
  by simp

lemma leaves_convert_refl:
  assumes leaf: "\<And>x. is_leaf x \<Longrightarrow> R x (convert_to_native_types x)"
    and refl: "\<And>x. R x x"
  shows "list_all2 R (leaves t) (leaves (convert_to_native_types t))"
proof (induction t rule: convert_to_native_types.induct)
  case (1 kvs)
  have "list_all2 R (concat (map (\<lambda>(k, v). leaves v) kvs))
          (concat (map (\<lambda>(k, v). leaves (convert_to_native_types v)) kvs))"
    by (rule list_all2_concat_map) (use 1 in \<open>auto\<close>)
  then show ?case
    by (simp add: comp_def case_prod_unfold)
next
  case (2 xs)
  have "list_all2 R (concat (map leaves xs))
          (concat (map (\<lambda>x. leaves (convert_to_native_types x)) xs))"
    by (rule list_all2_concat_map) (use 2 in \<open>auto\<close>)
  then show ?case by (simp add: comp_def)
next
  case (3 f)
  from leaf [of "PyFloat f"] show ?case
    by (cases "np_isnan f \<or> np_isinf f") simp_all
next
  case (4 k f)
  from leaf [of "NpFloating k f"] show ?case
    by (cases "np_isnan f \<or> np_isinf f") simp_all
next
  case (5 i)
  from leaf [of "PyInt i"] show ?case by simp
next
  case (6 i)
  from leaf [of "NpInteger i"] show ?case by simp
next
  case (7 b)
  from leaf [of "PyBool b"] show ?case by simp
next
  case (8 b)
  from leaf [of "NpBool b"] show ?case by simp
qed (simp_all add: refl list_all2_refl)

lemma shape_of_convert: "shape_of (convert_to_native_types t) = shape_of t"
  by (induction t rule: convert_to_native_types.induct) auto

text \<open>
  C9. The pass preserves the structure of its input: the result has the same containers,
  every dict with exactly its keys in their order, every list with its length and the
  order of its elements, and every leaf that is not numeric (a string, \<open>None\<close>) is
  returned unchanged.
\<close>

theorem convert_preserves_structure:
  "shape_of (convert_to_native_types t) = shape_of t \<and>
   list_all2 leaf_kept (leaves t) (leaves (convert_to_native_types t))"
proof
  show "shape_of (convert_to_native_types t) = shape_of t"
    by (rule shape_of_convert)
  show "list_all2 leaf_kept (leaves t) (leaves (convert_to_native_types t))"
  proof (rule leaves_convert_refl)
    fix x :: pyval
    assume "is_leaf x"
    then show "leaf_kept x (convert_to_native_types x)"
      by (cases x) (simp_all add: leaf_kept_def)
  next
    fix x :: pyval
    show "leaf_kept x x" by (simp add: leaf_kept_def)
  qed
qed

theorem convert_preserves_structure_witness:
  "shape_of (convert_to_native_types
      (PyDict [(''trend'', PyStr ''up''), (''gap'', PyNone),
               (''rsi'', PyList [NpFloating Float64 NaN, NpInteger 3])])) =
     DictShape [(''trend'', Scalar), (''gap'', Scalar),
                (''rsi'', ListShape [Scalar, Scalar])] \<and>
   list_all2 leaf_kept
     [PyStr ''up'', PyNone, NpFloating Float64 NaN, NpInteger 3]
     [PyStr ''up'', PyNone, PyNone, PyInt 3]"
  using convert_preserves_structure
    [of "PyDict [(''trend'', PyStr ''up''), (''gap'', PyNone),
                 (''rsi'', PyList [NpFloating Float64 NaN, NpInteger 3])]"]
  by simp

text \<open>
  C2, as stated, fails: a NaN and a numpy value inside a tuple are still there after the
  pass, which walks dicts and lists only.
\<close>

theorem tuple_escapes_sanitization:
  "\<not> native_clean (convert_to_native_types
        (PyDict [(''support_levels'', PyTuple [PyFloat NaN, NpFloating Float64 (Finite 1)])]))"
  by simp

text \<open>
  C2, amended. For a tree built of dicts, lists and leaves of the types the pass has a
  branch for (the numpy floating ones of at most 64 bits), the result contains no NaN, no
  infinity and no numpy-typed value anywhere.
\<close>

theorem convert_handled_is_clean:
  "handled t \<Longrightarrow> native_clean (convert_to_native_types t)"
proof (induction t rule: convert_to_native_types.induct)
  case (4 k f)
  then show ?case
    by (cases k; cases f) simp_all
qed (auto simp: list_all_iff)

theorem convert_handled_is_clean_witness:
  "handled (PyDict [(''rsi'', NpFloating Float64 NaN),
                    (''sma'', PyList [NpFloating Float32 (Finite 127), NpInteger 5, NpBool True])]) \<and>
   native_clean (PyDict [(''rsi'', PyNone),
                         (''sma'', PyList [PyFloat (Finite 127), PyInt 5, PyBool True])])"
  using convert_handled_is_clean
    [of "PyDict [(''rsi'', NpFloating Float64 NaN),
                 (''sma'', PyList [NpFloating Float32 (Finite 127), NpInteger 5, NpBool True])]"]
  by simp

text \<open>
  C4, as stated, fails on the list \<^verbatim>\<open>[float("nan"), True]\<close>: the float leaf has become
  \<open>None\<close>, not a native float, and the boolean leaf has become the int 1.
\<close>

theorem normalization_as_stated_fails:
  "leaves (convert_to_native_types (PyList [PyFloat NaN, PyBool True])) = [PyNone, PyInt 1] \<and>
   \<not> normalized_as_stated (PyFloat NaN) PyNone \<and>
   \<not> normalized_as_stated (PyBool True) (PyInt 1) \<and>
   \<not> list_all2 normalized_as_stated
        (leaves (PyList [PyFloat NaN, PyBool True]))
        (leaves (convert_to_native_types (PyList [PyFloat NaN, PyBool True])))"
  by (simp add: normalized_as_stated_def)

text \<open>
  C4, amended. In a tree built of dicts, lists and leaves, every finite float or numpy
  floating leaf has become a native float and every NaN or infinite one \<open>None\<close>, every
  int or numpy integer leaf a native int, every numpy bool a native bool.
\<close>

theorem convert_normalizes_types:
  "walked t \<Longrightarrow>
   list_all2 normalized (leaves t) (leaves (convert_to_native_types t))"
proof (rule leaves_convert_walked)
  fix x :: pyval
  assume "is_leaf x"
  then show "normalized x (convert_to_native_types x)"
    by (cases x) (auto simp: normalized_def)
qed

theorem convert_normalizes_types_witness:
  "walked (PyList [NpFloating Float32 (Finite 2), PyFloat PosInf, NpInteger 7, PyInt 8, NpBool False]) \<and>
   list_all2 normalized
     [NpFloating Float32 (Finite 2), PyFloat PosInf, NpInteger 7, PyInt 8, NpBool False]
     [PyFloat (Finite 2), PyNone, PyInt 7, PyInt 8, PyBool False]"
  using convert_normalizes_types
    [of "PyList [NpFloating Float32 (Finite 2), PyFloat PosInf, NpInteger 7, PyInt 8, NpBool False]"]
  by simp

text \<open>
  C8. The pass applied twice differs from the pass applied once on
  \<^verbatim>\<open>{"is_bullish": np.bool_(True)}\<close>: the first pass yields the native \<^verbatim>\<open>True\<close>, the
  second turns it into the int 1.
\<close>

theorem convert_twice_differs_on_np_bool:
  "convert_to_native_types (PyDict [(''is_bullish'', NpBool True)]) =
     PyDict [(''is_bullish'', PyBool True)] \<and>
   convert_to_native_types (convert_to_native_types (PyDict [(''is_bullish'', NpBool True)])) =
     PyDict [(''is_bullish'', PyInt 1)] \<and>
   convert_to_native_types (convert_to_native_types (PyDict [(''is_bullish'', NpBool True)])) \<noteq>
     convert_to_native_types (PyDict [(''is_bullish'', NpBool True)])"
  by simp

text \<open>
  Apart from the conversion of a long double, which may give the pass an infinity to
  remove the next time, the numpy bool is the only leaf on which a second pass differs.
\<close>

lemma convert_idempotent_without_np_bool:
  "no_np_bool t \<Longrightarrow> no_longdouble t \<Longrightarrow>
   convert_to_native_types (convert_to_native_types t) = convert_to_native_types t"
proof (induction t rule: convert_to_native_types.induct)
  case (4 k f)
  then show ?case
    by (cases k; cases f) simp_all
qed (force simp: list_all_iff)+

section \<open>Properties of the endpoints\<close>

lemma get_stock_data_not_found:
  "collector_get_stock_data env (symbol r) (period r) (Some (interval r)) = Inr None \<Longrightarrow>
   snd (get_stock_data env now r) =
     HTTPError 500 (''Error fetching stock data: '' @
       exn_str env (HTTPException 404 (''No data found for symbol '' @ symbol r)))"
  by (simp add: get_stock_data_def stock_data_try_def)

lemma get_stock_analysis_not_found:
  "collector_get_stock_data env (symbol r) (period r) None = Inr None \<Longrightarrow>
   snd (get_stock_analysis env now r) =
     HTTPError 500 (''Error generating analysis: '' @
       exn_str env (HTTPException 404 (''No data found for symbol '' @ symbol r)))"
  by (simp add: get_stock_analysis_def stock_analysis_try_def)

text \<open>
  C3. When the collector reports a symbol as not found, both stock endpoints answer with
  status 500: the \<^verbatim>\<open>HTTPException\<close> with status 404 raised inside the \<^verbatim>\<open>try\<close> block
  is caught by \<^verbatim>\<open>except Exception\<close>.
\<close>

theorem not_found_answers_500:
  "status_code (snd (get_stock_data
      (env\<lparr>collector_get_stock_data := \<lambda>s p i. Inr None\<rparr>) now r)) = 500 \<and>
   status_code (snd (get_stock_analysis
      (env\<lparr>collector_get_stock_data := \<lambda>s p i. Inr None\<rparr>) now r)) = 500"
  by (simp add: get_stock_data_def stock_data_try_def
        get_stock_analysis_def stock_analysis_try_def)

text \<open>The same on a request for the unknown symbol \<^verbatim>\<open>NOPE\<close>.\<close>

lemma not_found_example:
  "collector_get_stock_data example_env ''NOPE'' ''6mo'' (Some ''1d'') = Inr None \<and>
   get_stock_data example_env ''2024-05-01T09:30:00'' (StockRequest ''NOPE'' None None) =
     ([Collector_get_stock_data ''NOPE'' ''6mo'' (Some ''1d'')],
      HTTPError 500 ''Error fetching stock data: 404: No data found for symbol NOPE'') \<and>
   get_stock_analysis example_env ''2024-05-01T09:30:00'' (StockRequest ''NOPE'' None None) =
     ([Collector_get_stock_data ''NOPE'' ''6mo'' None],
      HTTPError 500 ''Error generating analysis: 404: No data found for symbol NOPE'')"
  by (simp add: example_env_def StockRequest_def get_stock_data_def stock_data_try_def
        get_stock_analysis_def stock_analysis_try_def)

text \<open>
  C10. The analysis endpoint does not depend on the interval of the request: its calls
  and its response are the same whatever the interval, and it calls the collector without
  one, whereas the data endpoint forwards the interval to the collector.
\<close>

theorem analysis_ignores_interval:
  "get_stock_analysis env now (r\<lparr>interval := i\<rparr>) = get_stock_analysis env now r \<and>
   fst (get_stock_analysis env now r) \<noteq> [] \<and>
   hd (fst (get_stock_analysis env now r)) =
     Collector_get_stock_data (symbol r) (period r) None \<and>
   fst (get_stock_data env now r) =
     [Collector_get_stock_data (symbol r) (period r) (Some (interval r))]"
  by (auto simp: get_stock_analysis_def stock_analysis_try_def
        get_stock_data_def stock_data_try_def Let_def
      split: sum.splits option.splits)

lemma analysis_insights_field:
  "collector_get_stock_data env (symbol r) (period r) None = Inr (Some df) \<Longrightarrow>
   analyzer_generate_insights env (symbol r) (period r) = Inr raw \<Longrightarrow>
   frame_to_records env df = Inr recs \<Longrightarrow>
   snd (get_stock_analysis env now r) =
     Returned (PyDict
       [(''timestamp'', PyStr now),
        (''symbol'', PyStr (symbol r)),
        (''data'', PyList (map convert_to_native_types recs)),
        (''insights'', convert_to_native_types raw)])"
  by (simp add: get_stock_analysis_def stock_analysis_try_def)

lemma analysis_timestamp_field:
  "collector_get_stock_data env (symbol r) (period r) None = Inr (Some df) \<Longrightarrow>
   analyzer_generate_insights env (symbol r) (period r) = Inr raw \<Longrightarrow>
   frame_to_records env df = Inr recs \<Longrightarrow>
   response_field ''timestamp'' (snd (get_stock_analysis env now r)) = Some (PyStr now)"
  by (simp add: analysis_insights_field)

lemma analysis_analyzer_raises:
  "collector_get_stock_data env (symbol r) (period r) None = Inr (Some df) \<Longrightarrow>
   analyzer_generate_insights env (symbol r) (period r) = Inl e \<Longrightarrow>
   snd (get_stock_analysis env now r) =
     HTTPError 500 (''Error generating analysis: '' @ exn_str env e)"
  by (simp add: get_stock_analysis_def stock_analysis_try_def)

lemma run_indicator_empty: "run_indicator ind [] = InsufficientData"
  by (simp add: run_indicator_def)

lemma run_indicator_value:
  "ts \<noteq> [] \<Longrightarrow> min_samples ind \<le> length ts \<Longrightarrow> compute ind ts = Inr v \<Longrightarrow>
   run_indicator ind ts = Value v"
  by (simp add: run_indicator_def)

lemma run_indicator_unavailable:
  "ts \<noteq> [] \<Longrightarrow> min_samples ind \<le> length ts \<Longrightarrow> compute ind ts = Inl e \<Longrightarrow>
   run_indicator ind ts = Unavailable"
  by (simp add: run_indicator_def)

lemma analysis_with_analyzer:
  "collector_get_stock_data env (symbol r) (period r) None = Inr (Some ts) \<Longrightarrow>
   frame_to_records env ts = Inr recs \<Longrightarrow>
   snd (get_stock_analysis (with_analyzer env inds) now r) =
     Returned (PyDict
       [(''timestamp'', PyStr now),
        (''symbol'', PyStr (symbol r)),
        (''data'', PyList (map convert_to_native_types recs)),
        (''insights'', convert_to_native_types (assemble inds (symbol r) (period r) ts))])"
  by (simp add: get_stock_analysis_def stock_analysis_try_def with_analyzer_def
        generate_insights_def)

lemma analysis_pandas_datetime:
  "collector_get_stock_data env (symbol r) (period r) None = Inr (Some (DatetimeFrame rows)) \<Longrightarrow>
   snd (get_stock_analysis (pandas_env env record_of inds) now r) =
     Returned (PyDict
       [(''timestamp'', PyStr now),
        (''symbol'', PyStr (symbol r)),
        (''data'', PyList (map (\<lambda>(ts, s). convert_to_native_types (record_of ts s)) rows)),
        (''insights'',
           convert_to_native_types (assemble inds (symbol r) (period r) (map snd rows)))])"
  by (simp add: get_stock_analysis_def stock_analysis_try_def pandas_env_def
        generate_insights_def pandas_records_def comp_def case_prod_unfold)

lemma analysis_pandas_plain:
  "collector_get_stock_data env (symbol r) (period r) None = Inr (Some (PlainFrame rows)) \<Longrightarrow>
   snd (get_stock_analysis (pandas_env env record_of inds) now r) =
     HTTPError 500 (''Error generating analysis: '' @
       exn_str env (attribute_error ''RangeIndex'' ''strftime''))"
  by (simp add: get_stock_analysis_def stock_analysis_try_def pandas_env_def
        generate_insights_def pandas_records_def)

text \<open>
  C7, as stated, fails for the symbol whose TimeSeries is the empty frame
  \<^verbatim>\<open>pd.DataFrame()\<close>: its index has no \<^verbatim>\<open>strftime\<close>, line 122 raises and the endpoint
  answers with status 500.
\<close>

theorem empty_plain_frame_answers_500:
  "collector_get_stock_data example_frames ''BLANK'' ''6mo'' None = Inr (Some (PlainFrame [])) \<and>
   get_stock_analysis (pandas_env example_frames close_record [last_close, faulty])
       ''2024-05-01T09:30:00'' (StockRequest ''BLANK'' None None) =
     ([Collector_get_stock_data ''BLANK'' ''6mo'' None,
       Analyzer_generate_insights ''BLANK'' ''6mo''],
      HTTPError 500
        (''Error generating analysis: '' @ [CHR 0x27] @ ''RangeIndex'' @ [CHR 0x27] @
         '' object has no attribute '' @ [CHR 0x27] @ ''strftime'' @ [CHR 0x27]))"
  by (simp add: example_frames_def StockRequest_def get_stock_analysis_def
        stock_analysis_try_def pandas_env_def generate_insights_def pandas_records_def
        attribute_error_def)

text \<open>
  C7, amended. For a symbol that the collector resolves to an empty frame with a
  \<^verbatim>\<open>DatetimeIndex\<close>, the analysis endpoint returns a response whose data is empty and
  whose bundle reports "insufficient data" for every indicator.
\<close>

theorem empty_series_reports_insufficient_data:
  assumes "collector_get_stock_data env (symbol r) (period r) None = Inr (Some (DatetimeFrame []))"
  shows "snd (get_stock_analysis (pandas_env env record_of inds) now r) =
     Returned (PyDict
       [(''timestamp'', PyStr now),
        (''symbol'', PyStr (symbol r)),
        (''data'', PyList []),
        (''insights'', PyDict
           [(''symbol'', PyStr (symbol r)),
            (''period'', PyStr (period r)),
            (''indicators'',
               PyDict (map (\<lambda>ind. (ind_name ind, PyStr ''insufficient data'')) inds))])])"
  by (simp add: analysis_pandas_datetime [OF assms] assemble_def run_indicator_def comp_def)

theorem empty_series_reports_insufficient_data_witness:
  "collector_get_stock_data example_frames ''EMPTY'' ''6mo'' None = Inr (Some (DatetimeFrame [])) \<and>
   snd (get_stock_analysis (pandas_env example_frames close_record [last_close, faulty])
          ''2024-05-01T09:30:00'' (StockRequest ''EMPTY'' None None)) =
     Returned (PyDict
       [(''timestamp'', PyStr ''2024-05-01T09:30:00''),
        (''symbol'', PyStr ''EMPTY''),
        (''data'', PyList []),
        (''insights'', PyDict
           [(''symbol'', PyStr ''EMPTY''),
            (''period'', PyStr ''6mo''),
            (''indicators'',
               PyDict [(''last_close'', PyStr ''insufficient data''),
                       (''rsi'', PyStr ''insufficient data'')])])])"
  using empty_series_reports_insufficient_data
    [where env = example_frames and r = "StockRequest ''EMPTY'' None None"
       and record_of = close_record and inds = "[last_close, faulty]"
       and now = "''2024-05-01T09:30:00''"]
  by (simp add: example_frames_def StockRequest_def last_close_def faulty_def)



text \<open>
  C5. When exactly one indicator computation fails, the analysis endpoint still returns a
  response (status 200) with the complete bundle: every other indicator with its
  (sanitized) value, the failing one marked "unavailable".
\<close>

theorem one_failing_indicator_is_isolated:
  assumes "collector_get_stock_data env (symbol r) (period r) None = Inr (Some ts)"
    and "frame_to_records env ts = Inr recs"
    and "ts \<noteq> []"
    and "\<forall>ind \<in> set (pre @ [bad] @ post). min_samples ind \<le> length ts"
    and "compute bad ts = Inl e"
    and "\<forall>ind \<in> set (pre @ post). compute ind ts = Inr (val ind)"
  shows "snd (get_stock_analysis (with_analyzer env (pre @ [bad] @ post)) now r) =
     Returned (PyDict
       [(''timestamp'', PyStr now),
        (''symbol'', PyStr (symbol r)),
        (''data'', PyList (map convert_to_native_types recs)),
        (''insights'', PyDict
           [(''symbol'', PyStr (symbol r)),
            (''period'', PyStr (period r)),
            (''indicators'',
               PyDict
                 (map (\<lambda>ind. (ind_name ind, convert_to_native_types (val ind))) pre @
                  [(ind_name bad, PyStr ''unavailable'')] @
                  map (\<lambda>ind. (ind_name ind, convert_to_native_types (val ind))) post))])])"
proof -
  have good: "run_indicator ind ts = Value (val ind)" if "ind \<in> set (pre @ post)" for ind
    using that assms(3,4,6) by (intro run_indicator_value) auto
  have bad: "run_indicator bad ts = Unavailable"
    using assms(3,4,5) by (intro run_indicator_unavailable) auto
  have pre: "map (\<lambda>ind. (ind_name ind, convert_to_native_types (result_value (run_indicator ind ts)))) pre =
             map (\<lambda>ind. (ind_name ind, convert_to_native_types (val ind))) pre"
    by (rule map_cong) (simp_all add: good)
  have post: "map (\<lambda>ind. (ind_name ind, convert_to_native_types (result_value (run_indicator ind ts)))) post =
              map (\<lambda>ind. (ind_name ind, convert_to_native_types (val ind))) post"
    by (rule map_cong) (simp_all add: good)
  show ?thesis
    by (simp add: analysis_with_analyzer [OF assms(1,2)] assemble_def comp_def bad pre post)
qed

theorem one_failing_indicator_is_isolated_witness:
  "collector_get_stock_data example_env ''AAPL'' ''6mo'' None = Inr (Some [100, 101, 102]) \<and>
   compute faulty [100, 101, 102] = Inl (PyException ''float division by zero'') \<and>
   compute last_close [100, 101, 102] = Inr (NpInteger 102) \<and>
   compute sample_count [100, 101, 102] = Inr (PyInt 3) \<and>
   snd (get_stock_analysis (with_analyzer example_env [last_close, faulty, sample_count])
          ''2024-05-01T09:30:00'' (StockRequest ''AAPL'' None None)) =
     Returned (PyDict
       [(''timestamp'', PyStr ''2024-05-01T09:30:00''),
        (''symbol'', PyStr ''AAPL''),
        (''data'', PyList [PyDict [(''Close'', PyInt 100)], PyDict [(''Close'', PyInt 101)],
                           PyDict [(''Close'', PyInt 102)]]),
        (''insights'', PyDict
           [(''symbol'', PyStr ''AAPL''),
            (''period'', PyStr ''6mo''),
            (''indicators'',
               PyDict [(''last_close'', PyInt 102),
                       (''rsi'', PyStr ''unavailable''),
                       (''samples'', PyInt 3)])])])"
  using one_failing_indicator_is_isolated
    [where env = example_env and r = "StockRequest ''AAPL'' None None"
       and ts = "[100, 101, 102]"
       and recs = "map (\<lambda>c. PyDict [(''Close'', NpInteger c)]) [100, 101, 102]"
       and pre = "[last_close]" and bad = faulty and post = "[sample_count]"
       and e = "PyException ''float division by zero''"
       and val = "\<lambda>ind. if ind_name ind = ''samples'' then PyInt 3 else NpInteger 102"
       and now = "''2024-05-01T09:30:00''"]
  by (simp add: example_env_def StockRequest_def last_close_def faulty_def sample_count_def)

end
